theory Spec2Isabelle
  imports Main "HOL-Library.Word" "HOL-Library.Sublist"
begin

section \<open>The virtual judger: BaseJudger and its A2OJ backend\<close>

text \<open>
  The judger is an event-driven JavaScript object. Each method becomes a function on the
  object's fields; a handler that runs later (a promise callback, a socket event) is the
  continuation of the call that registered it, so one job's pipeline is one function that
  threads the state through the backend calls in the order the callbacks run.

  Conventions of the model:
  \<^item> a library name denotes what the file binds it to: \<open>Buffer\<close> is the module object
    of \<open>require('buffer')\<close> (line 163), and a \<open>data\<close> event carries a string, since the
    constructor calls \<open>setEncoding('utf8')\<close> on the socket (line 181);
  \<^item> job and verdict fields are strings, as the JSDoc annotations and the wire format
    have them;
  \<^item> \<open>JSON.parse\<close> and \<open>JSON.stringify\<close> are library functions and enter as the
    parameter \<open>J\<close>; console logging is not modelled;
  \<^item> an exception raised inside a promise callback ends that job's pipeline: no later
    callback of the chain runs, and the state stays as it was when the exception was raised;
  \<^item> a name cannot end in an underscore here, so the source's private members lose theirs:
    \<open>loggedIn\<close> is the field \<open>loggedIn_\<close>, \<open>onData\<close> the method \<open>onData_\<close>;
  \<^item> the field \<open>trace\<close> is instrumentation: it records, in order, the backend calls the
    pipeline makes, the timers it sets and the invocations of \<open>onFailed\<close> and
    \<open>sendResult_\<close>.
\<close>

subsection \<open>Values\<close>

type_synonym byte = "8 word"

datatype error = TypeError | RangeError | SyntaxError | InvalidLanguage

text \<open>A rejection reason: \<open>reject()\<close> passes \<open>undefined\<close>, the error table passes strings.\<close>

datatype reason = Undefined | Str string

text \<open>
  What a call to a promise-returning method does: it returns a promise that is resolved,
  rejected or never settled, or it throws instead of returning, or it never returns.
\<close>

datatype 'a outcome = Resolved 'a | Rejected reason | Pending | Thrown | Hangs

text \<open>
  The \<open>language\<close> property of a job: the code the dispatcher sends, and after the
  translation whatever \<open>languageTable_[language]\<close> holds, a string of the table or the
  member of \<open>Object.prototype\<close> of that name (a function or an object).
\<close>

datatype language = Code string | Builtin string

record info =
  runid :: string
  vid :: string
  language :: language
  source :: string

text \<open>
  The object \<open>getStatus\<close> resolves with, and the verdict it grows into; \<open>vrunid\<close> is
  the verdict's property \<open>runid\<close>, and \<open>compileInfo\<close> is \<open>None\<close> while the property is
  not set.
\<close>

record status =
  memoryUsed :: string
  timeUsed :: string
  result :: string
  remoteRunid :: string

record verdict = status +
  type :: nat
  vrunid :: string
  compileInfo :: "string option"

datatype event =
  Login | Submit | GetStatus | GetCompileInfo | SetTimeout nat | Failed reason
  | SendResult verdict

text \<open>
  \<open>parse\<close> stands for \<open>JSON.parse\<close> on a payload that holds a job object, \<open>None\<close> for a
  payload that is not JSON; no run of \<open>onData_\<close> gets as far as calling it.
\<close>

record json =
  parse :: "byte list \<Rightarrow> info option"
  stringify :: "verdict \<Rightarrow> byte list"

subsection \<open>config.js\<close>

record dispatcher =
  host :: string
  port :: nat
  secret :: string

definition config_dispatcher :: dispatcher where
  "config_dispatcher = \<lparr>host = ''localhost'', port = 5907, secret = ''yourjudgestring''\<rparr>"

subsection \<open>What the file's bindings denote\<close>

text \<open>
  Line 163 is \<open>var Buffer = require('buffer')\<close>: the module object, which holds the
  class as its member \<open>Buffer\<close>. It is not a constructor, so \<open>new Buffer(...)\<close> raises a
  TypeError, and it has no member \<open>concat\<close>, so \<open>Buffer.concat(...)\<close> raises one too.
  The \<open>data\<close> listener is handed a string, and a string has no method \<open>readIntBE\<close>: the
  call \<open>data.readIntBE(0, 4)\<close> raises a TypeError.
\<close>

definition new_Buffer :: "'a \<Rightarrow> error + byte list" where
  "new_Buffer x = Inl TypeError"

definition Buffer_concat :: "int \<Rightarrow> byte list \<Rightarrow> nat \<Rightarrow> error + byte list" where
  "Buffer_concat n data totalLength = Inl TypeError"

definition data_readIntBE :: "byte list \<Rightarrow> nat \<Rightarrow> nat \<Rightarrow> error + int" where
  "data_readIntBE data offset byteLength = Inl TypeError"

text \<open>
  \<open>writeIntBE(value, 0, 4)\<close> of a buffer, were one made: the four bytes, most significant
  first, and a RangeError outside 32 signed bits.
\<close>

definition be32 :: "int \<Rightarrow> byte list" where
  "be32 v = [word_of_int (v div 2 ^ 24), word_of_int (v div 2 ^ 16),
             word_of_int (v div 2 ^ 8), word_of_int v]"

definition writeIntBE4 :: "int \<Rightarrow> error + byte list" where
  "writeIntBE4 v = (if - (2 ^ 31) \<le> v \<and> v < 2 ^ 31 then Inr (be32 v) else Inl RangeError)"

definition bytes_of :: "string \<Rightarrow> byte list" where
  "bytes_of s = map of_char s"

subsection \<open>BaseJudger\<close>

text \<open>
  The fields of the constructor, the socket \<open>client\<close> as the list of buffers written to
  it and the number of \<open>connect\<close> calls issued, the pending reconnect timers, and \<open>sub\<close>
  for the fields a subclass adds.
\<close>

record 'b BaseJudger =
  client :: "byte list list"
  connects :: nat
  timers :: "nat list"
  judgerId :: string
  receivedData :: "byte list option"
  receivedBytes :: int
  readBytes :: int
  loggedIn :: bool
  sub :: 'b
  trace :: "event list"

definition new_BaseJudger :: "string \<Rightarrow> 'b \<Rightarrow> 'b BaseJudger" where
  "new_BaseJudger jid b =
     \<lparr>client = [], connects = 0, timers = [], judgerId = jid, receivedData = None,
      receivedBytes = 0, readBytes = 0, loggedIn = False, sub = b, trace = []\<rparr>"

text \<open>The virtual methods. \<open>getWaitTime\<close> is \<open>None\<close> when the object has no such method.\<close>

record 'b methods =
  getLanguage :: "'b \<Rightarrow> language \<Rightarrow> error + language"
  login :: "'b \<Rightarrow> unit outcome \<times> 'b"
  submit :: "'b \<Rightarrow> info \<Rightarrow> unit outcome \<times> 'b"
  getStatus :: "'b \<Rightarrow> status outcome \<times> 'b"
  getCompileInfo :: "'b \<Rightarrow> string outcome \<times> 'b"
  getWaitTime :: "('b \<Rightarrow> nat) option"

definition SAME_CODE :: reason where "SAME_CODE = Str ''Same code''"
definition INVALID_LANGUAGE :: reason where "INVALID_LANGUAGE = Str ''Invalid language''"
definition COMPILE_ERROR :: reason where "COMPILE_ERROR = Str ''Compile error''"
definition LOGIN_FAILED :: reason where "LOGIN_FAILED = Str ''Login failed''"
definition OTHERS :: reason where "OTHERS = Str ''Other''"

definition RESULT_REPORT :: nat where "RESULT_REPORT = 1003"

text \<open>A backend call: run the method on the subclass fields and record the event.\<close>

definition call :: "event \<Rightarrow> ('b \<Rightarrow> 'a outcome \<times> 'b) \<Rightarrow> 'b BaseJudger \<Rightarrow> 'a outcome \<times> 'b BaseJudger" where
  "call ev m st = (case m (sub st) of (out, b) \<Rightarrow> (out, st\<lparr>sub := b, trace := trace st @ [ev]\<rparr>))"

definition connect :: "'b BaseJudger \<Rightarrow> 'b BaseJudger" where
  "connect st = st\<lparr>connects := connects st + 1\<rparr>"

text \<open>The callback of \<open>connect\<close>: the secret goes out unframed.\<close>

definition onConnected :: "'b BaseJudger \<Rightarrow> 'b BaseJudger" where
  "onConnected st = st\<lparr>client := client st @ [bytes_of (secret config_dispatcher)]\<rparr>"

definition start :: "'b BaseJudger \<Rightarrow> 'b BaseJudger" where
  "start st = connect st"

definition reconnect :: "'b BaseJudger \<Rightarrow> 'b BaseJudger" where
  "reconnect st = st\<lparr>timers := timers st @ [5000]\<rparr>"

definition onClose :: "'b BaseJudger \<Rightarrow> bool \<Rightarrow> 'b BaseJudger" where
  "onClose st hadError = (if \<not> hadError then reconnect st else st)"

definition onError :: "'b BaseJudger \<Rightarrow> 'b BaseJudger" where
  "onError st = reconnect st"

text \<open>A reconnect timer fires: the oldest pending timer runs \<open>connect\<close>.\<close>

definition onTimer :: "'b BaseJudger \<Rightarrow> 'b BaseJudger" where
  "onTimer st = (case timers st of [] \<Rightarrow> st | _ # ts \<Rightarrow> connect (st\<lparr>timers := ts\<rparr>))"

text \<open>
  \<open>sendResult_\<close> logs, serializes the verdict and calls \<open>new Buffer\<close> on the text; that
  call raises, so the two writes are not reached. The exception ends the pipeline.
\<close>

definition sendResult :: "json \<Rightarrow> 'b BaseJudger \<Rightarrow> verdict \<Rightarrow> 'b BaseJudger" where
  "sendResult J st res =
     (let st' = st\<lparr>trace := trace st @ [SendResult res]\<rparr>
      in case new_Buffer (stringify J res) of
           Inl e \<Rightarrow> st'
         | Inr buffer \<Rightarrow>
             (case new_Buffer (4 :: nat) of
                Inl e \<Rightarrow> st'
              | Inr _ \<Rightarrow>
                  (case writeIntBE4 (int (length buffer)) of
                     Inl e \<Rightarrow> st'
                   | Inr len \<Rightarrow> st'\<lparr>client := client st' @ [len, buffer]\<rparr>)))"

text \<open>The object \<open>onFailed\<close> builds in its local variable \<open>result\<close>.\<close>

definition onFailed_result :: "info \<Rightarrow> reason \<Rightarrow> verdict" where
  "onFailed_result job rsn =
     \<lparr>memoryUsed = ''0'', timeUsed = ''0'',
      result = (if rsn = COMPILE_ERROR then ''Compile Error''
                else if rsn = SAME_CODE then ''Judge Error (Same Code)''
                else if rsn = INVALID_LANGUAGE then ''Judge Error (Invalid Language)''
                else ''Judge Error''),
      remoteRunid = ''0'', type = RESULT_REPORT, vrunid = runid job, compileInfo = Some ''''\<rparr>"

text \<open>\<open>onFailed\<close> ends after the last assignment to \<open>result\<close>: the object is dropped.\<close>

definition onFailed :: "'b BaseJudger \<Rightarrow> info \<Rightarrow> reason \<Rightarrow> 'b BaseJudger" where
  "onFailed st job rsn =
     (let res = onFailed_result job rsn
      in st\<lparr>trace := trace st @ [Failed rsn]\<rparr>)"

definition onResult :: "json \<Rightarrow> 'b methods \<Rightarrow> 'b BaseJudger \<Rightarrow> verdict \<Rightarrow> 'b BaseJudger" where
  "onResult J M st res =
     (if result res = ''Compile Error'' then
        (case call GetCompileInfo (getCompileInfo M) st of
           (Resolved ci, st') \<Rightarrow> sendResult J st' (res\<lparr>compileInfo := Some ci\<rparr>)
         | (Rejected _, st') \<Rightarrow> sendResult J st' (res\<lparr>compileInfo := Some ''''\<rparr>)
         | (_, st') \<Rightarrow> st')
      else sendResult J st res)"

text \<open>
  The rejection handler of \<open>getStatus\<close> is \<open>(err) => this.onFailed.bind(this, info, err)\<close>:
  it builds a bound function and returns it; \<open>onFailed\<close> is not invoked.
\<close>

definition onSubmitted :: "json \<Rightarrow> 'b methods \<Rightarrow> 'b BaseJudger \<Rightarrow> info \<Rightarrow> 'b BaseJudger" where
  "onSubmitted J M st job =
     (case call GetStatus (getStatus M) st of
        (Resolved s, st') \<Rightarrow>
          onResult J M st'
            \<lparr>memoryUsed = memoryUsed s, timeUsed = timeUsed s, result = result s,
             remoteRunid = remoteRunid s, type = RESULT_REPORT, vrunid = runid job,
             compileInfo = None\<rparr>
      | (_, st') \<Rightarrow> st')"

text \<open>
  The three tiers of \<open>judge\<close>. In the third, \<open>this.getWaitTime()\<close> is evaluated before
  \<open>setTimeout\<close> is called, so an object without that method raises there; the last
  rejection handler is again \<open>(err) => this.onFailed.bind(this, info, err)\<close>.
\<close>

definition judge :: "json \<Rightarrow> 'b methods \<Rightarrow> 'b BaseJudger \<Rightarrow> info \<Rightarrow> 'b BaseJudger" where
  "judge J M st job =
     (case call Submit (\<lambda>b. submit M b job) st of
        (Resolved _, st1) \<Rightarrow> onSubmitted J M st1 job
      | (Rejected _, st1) \<Rightarrow>
          (case call Login (login M) st1 of
             (Resolved _, st2) \<Rightarrow>
               (case call Submit (\<lambda>b. submit M b job) st2 of
                  (Resolved _, st3) \<Rightarrow> onSubmitted J M st3 job
                | (Rejected _, st3) \<Rightarrow>
                    (case getWaitTime M of
                       None \<Rightarrow> st3
                     | Some wait \<Rightarrow>
                         (case call Submit (\<lambda>b. submit M b job)
                                 (st3\<lparr>trace := trace st3 @ [SetTimeout (wait (sub st3))]\<rparr>) of
                            (Resolved _, st4) \<Rightarrow> onSubmitted J M st4 job
                          | (_, st4) \<Rightarrow> st4))
                | (_, st3) \<Rightarrow> st3)
           | (Rejected _, st2) \<Rightarrow> onFailed st2 job LOGIN_FAILED
           | (_, st2) \<Rightarrow> st2)
      | (_, st1) \<Rightarrow> st1)"

text \<open>
  \<open>maybeJudge\<close>: the \<open>try\<close> block holds the translation and the call of \<open>login\<close>, so a
  \<open>login\<close> that throws lands in the same \<open>catch\<close>. The \<open>if\<close> has no \<open>else\<close>.
\<close>

definition maybeJudge :: "json \<Rightarrow> 'b methods \<Rightarrow> 'b BaseJudger \<Rightarrow> info \<Rightarrow> 'b BaseJudger" where
  "maybeJudge J M st job =
     (case getLanguage M (sub st) (language job) of
        Inl err \<Rightarrow> onFailed st job INVALID_LANGUAGE
      | Inr l \<Rightarrow>
          (let job' = job\<lparr>language := l\<rparr>
           in if \<not> loggedIn st then
                (case call Login (login M) st of
                   (Resolved _, st') \<Rightarrow> judge J M st' job'
                 | (Rejected _, st') \<Rightarrow> onFailed st' job' LOGIN_FAILED
                 | (Thrown, st') \<Rightarrow> onFailed st' job' INVALID_LANGUAGE
                 | (_, st') \<Rightarrow> st')
              else st))"

text \<open>
  \<open>onData\<close>; \<open>data\<close> is the bytes of the chunk, which the listener sees as a string. The
  first branch raises at \<open>data.readIntBE(0, 4)\<close>, before \<open>receivedBytes_\<close> is assigned;
  the continuation branch assigns \<open>readBytes_\<close> and raises at
  \<open>Buffer.concat([this.receivedBytes_, data], 2)\<close>. An exception in the handler is the
  result \<open>Inl\<close>.
\<close>

definition onData :: "json \<Rightarrow> 'b methods \<Rightarrow> 'b BaseJudger \<Rightarrow> byte list \<Rightarrow> error + 'b BaseJudger" where
  "onData J M st data =
     (case (if receivedBytes st = 0 then
              (case data_readIntBE data 0 4 of
                 Inl e \<Rightarrow> Inl e
               | Inr n \<Rightarrow> Inr (st\<lparr>receivedBytes := n, readBytes := int (length data) - 4,
                                 receivedData := Some (drop 4 data)\<rparr>))
            else
              (case Buffer_concat (receivedBytes st) data 2 of
                 Inl e \<Rightarrow> Inl e
               | Inr d \<Rightarrow> Inr (st\<lparr>readBytes := int (length data), receivedData := Some d\<rparr>))) of
        Inl e \<Rightarrow> Inl e
      | Inr st1 \<Rightarrow>
          if readBytes st1 = receivedBytes st1 then
            (case receivedData st1 of
               None \<Rightarrow> Inl TypeError
             | Some d \<Rightarrow>
                 (case parse J d of
                    None \<Rightarrow> Inl SyntaxError
                  | Some job \<Rightarrow> Inr (maybeJudge J M (st1\<lparr>receivedBytes := 0\<rparr>) job)))
          else Inr st1)"

text \<open>Successive \<open>data\<close> events; the first exception ends the run.\<close>

fun deliver :: "json \<Rightarrow> 'b methods \<Rightarrow> 'b BaseJudger \<Rightarrow> byte list list \<Rightarrow> error + 'b BaseJudger" where
  "deliver J M st [] = Inr st"
| "deliver J M st (d # ds) =
     (case onData J M st d of Inl e \<Rightarrow> Inl e | Inr st' \<Rightarrow> deliver J M st' ds)"

subsection \<open>A2ojJudger\<close>

text \<open>
  What the remote site answers and what the wall clock shows are inputs: \<open>network\<close> holds
  the responses the HTTP requests of \<open>login\<close> and \<open>submit\<close> will get, in order, and \<open>clock\<close>
  the successive values of \<open>Date.now()\<close>. \<open>requests\<close> counts the status requests issued.
\<close>

record response =
  ok :: bool
  body :: string
  url :: string

record A2ojJudger =
  username :: string
  password :: string
  timeout :: int
  statusUrl :: "string option"
  languageTable :: "string \<rightharpoonup> string"
  network :: "response list"
  clock :: "int list"
  requests :: nat

definition new_A2ojJudger ::
    "string \<Rightarrow> string \<Rightarrow> int \<Rightarrow> response list \<Rightarrow> int list \<Rightarrow> A2ojJudger BaseJudger" where
  "new_A2ojJudger u p t net clk =
     new_BaseJudger (''A2OJ:'' @ u)
       \<lparr>username = u, password = p, timeout = t, statusUrl = None,
        languageTable =
          [''1'' \<mapsto> ''41'', ''2'' \<mapsto> ''11'', ''3'' \<mapsto> ''10'', ''4'' \<mapsto> ''22'', ''5'' \<mapsto> ''4'',
           ''6'' \<mapsto> ''27'', ''7'' \<mapsto> ''5'', ''8'' \<mapsto> ''3'', ''9'' \<mapsto> ''17'', ''10'' \<mapsto> ''7''],
        network = net, clock = clk, requests = 0\<rparr>"

text \<open>
  The names every plain object inherits from \<open>Object.prototype\<close>; each is a function,
  and \<open>__proto__\<close> is the prototype object itself.
\<close>

definition Object_prototype :: "string list" where
  "Object_prototype =
     [''constructor'', ''toString'', ''toLocaleString'', ''valueOf'', ''hasOwnProperty'',
      ''isPrototypeOf'', ''propertyIsEnumerable'', ''__proto__'', ''__defineGetter__'',
      ''__defineSetter__'', ''__lookupGetter__'', ''__lookupSetter__'']"

text \<open>
  \<open>getLanguage\<close>: \<open>languageTable_\<close> is a plain object, so the lookup finds the table's own
  entries and the inherited names. \<open>!this.languageTable_[language]\<close> holds for a name
  found in neither and for an empty string; an inherited member is truthy and is
  returned. A \<open>Builtin\<close> used as a key is the key of its string form, which is a name of
  neither.
\<close>

definition A2oj_getLanguage :: "A2ojJudger \<Rightarrow> language \<Rightarrow> error + language" where
  "A2oj_getLanguage a lang =
     (case lang of
        Builtin name \<Rightarrow> Inl InvalidLanguage
      | Code key \<Rightarrow>
          (case languageTable a key of
             Some l \<Rightarrow> if l = [] then Inl InvalidLanguage else Inr (Code l)
           | None \<Rightarrow>
               if key \<in> set Object_prototype then Inr (Builtin key)
               else Inl InvalidLanguage))"

definition A2oj_getCompileInfo :: "A2ojJudger \<Rightarrow> string outcome \<times> A2ojJudger" where
  "A2oj_getCompileInfo a = (Thrown, a)"

fun indexOf :: "string \<Rightarrow> string \<Rightarrow> int" where
  "indexOf [] needle = (if needle = [] then 0 else - 1)"
| "indexOf (c # cs) needle =
     (if take (length needle) (c # cs) = needle then 0
      else (let i = indexOf cs needle in if i < 0 then - 1 else i + 1))"

definition A2oj_login :: "A2ojJudger \<Rightarrow> unit outcome \<times> A2ojJudger" where
  "A2oj_login a =
     (case network a of
        [] \<Rightarrow> (Pending, a)
      | response # rest \<Rightarrow>
          (if \<not> ok response then Rejected Undefined
           else if indexOf (body response)
                     (''action='' @ [CHR 0x22] @ ''SignInCode.jsp'' @ [CHR 0x22]) \<ge> 0
                then Rejected Undefined
           else Resolved (),
           a\<lparr>network := rest\<rparr>))"

definition A2oj_submit :: "A2ojJudger \<Rightarrow> info \<Rightarrow> unit outcome \<times> A2ojJudger" where
  "A2oj_submit a job =
     (case network a of
        [] \<Rightarrow> (Pending, a)
      | response # rest \<Rightarrow>
          (if \<not> ok response then (Rejected Undefined, a\<lparr>network := rest\<rparr>)
           else if indexOf (body response)
                     ''<center>Your solution has been submitted successfully</center>'' < 0
                then (Rejected Undefined, a\<lparr>network := rest\<rparr>)
           else (Resolved (), a\<lparr>network := rest, statusUrl := Some (url response)\<rparr>)))"

text \<open>
  The loop of \<open>getStatus\<close>: every test of the condition reads the clock; while the
  deadline has not passed, the body issues one request whose callback is empty. The result
  is the number of requests issued and the readings left, or \<open>None\<close> when the readings
  end before the deadline passes.
\<close>

fun spin :: "int \<Rightarrow> int \<Rightarrow> int list \<Rightarrow> nat \<Rightarrow> (nat \<times> int list) option" where
  "spin startTime limit [] n = None"
| "spin startTime limit (now # clk) n =
     (if now - startTime < limit then spin startTime limit clk (Suc n) else Some (n, clk))"

text \<open>
  \<open>getStatus\<close>: without a status URL the promise is rejected; otherwise the executor runs
  the loop and returns, and nothing in it calls \<open>resolve\<close> or \<open>reject\<close>.
\<close>

definition A2oj_getStatus :: "A2ojJudger \<Rightarrow> status outcome \<times> A2ojJudger" where
  "A2oj_getStatus a =
     (if statusUrl a = None \<or> statusUrl a = Some [] then (Rejected Undefined, a)
      else (case clock a of
              [] \<Rightarrow> (Hangs, a)
            | startTime # clk \<Rightarrow>
                (case spin startTime (timeout a * 1000) clk 0 of
                   None \<Rightarrow> (Hangs, a\<lparr>clock := [], requests := requests a + length clk\<rparr>)
                 | Some (n, clk') \<Rightarrow> (Pending, a\<lparr>clock := clk', requests := requests a + n\<rparr>))))"

definition A2oj :: "A2ojJudger methods" where
  "A2oj = \<lparr>getLanguage = A2oj_getLanguage, login = A2oj_login, submit = A2oj_submit,
           getStatus = A2oj_getStatus, getCompileInfo = A2oj_getCompileInfo,
           getWaitTime = None\<rparr>"

subsection \<open>A scripted backend\<close>

text \<open>
  A backend stub for the pipeline: each method answers from its script, one entry per
  call; a call beyond the script returns a promise that never settles. Every language
  code translates to itself.
\<close>

record stub =
  logins :: "unit outcome list"
  submits :: "unit outcome list"
  statuses :: "status outcome list"
  compileInfos :: "string outcome list"

definition next_outcome :: "'a outcome list \<Rightarrow> 'a outcome \<times> 'a outcome list" where
  "next_outcome script = (case script of [] \<Rightarrow> (Pending, []) | out # rest \<Rightarrow> (out, rest))"

definition Stub :: "nat option \<Rightarrow> stub methods" where
  "Stub wait =
     \<lparr>getLanguage = (\<lambda>b lang. Inr lang),
      login = (\<lambda>b. case next_outcome (logins b) of (out, rest) \<Rightarrow> (out, b\<lparr>logins := rest\<rparr>)),
      submit = (\<lambda>b job. case next_outcome (submits b) of (out, rest) \<Rightarrow> (out, b\<lparr>submits := rest\<rparr>)),
      getStatus = (\<lambda>b. case next_outcome (statuses b) of (out, rest) \<Rightarrow> (out, b\<lparr>statuses := rest\<rparr>)),
      getCompileInfo =
        (\<lambda>b. case next_outcome (compileInfos b) of (out, rest) \<Rightarrow> (out, b\<lparr>compileInfos := rest\<rparr>)),
      getWaitTime = map_option (\<lambda>w b. w) wait\<rparr>"

subsection \<open>Reachable states\<close>

text \<open>
  The states a judger with methods \<open>M\<close> can be in: the constructor's state, and whatever
  \<open>start\<close> and the socket and timer events make of a reachable state. A \<open>data\<close> event
  raises before it dispatches a job; the rule \<open>judged\<close> adds the states the pipeline
  would make of a job, so that what holds of all reachable states holds of the pipeline
  too.
\<close>

inductive reachable :: "json \<Rightarrow> 'b methods \<Rightarrow> 'b BaseJudger \<Rightarrow> bool" for J M where
  constructed: "reachable J M (new_BaseJudger jid b)"
| started: "reachable J M st \<Longrightarrow> reachable J M (start st)"
| connected: "reachable J M st \<Longrightarrow> reachable J M (onConnected st)"
| received: "reachable J M st \<Longrightarrow> onData J M st d = Inr st' \<Longrightarrow> reachable J M st'"
| judged: "reachable J M st \<Longrightarrow> reachable J M (maybeJudge J M st job)"
| closed: "reachable J M st \<Longrightarrow> reachable J M (onClose st hadError)"
| errored: "reachable J M st \<Longrightarrow> reachable J M (onError st)"
| timer: "reachable J M st \<Longrightarrow> reachable J M (onTimer st)"

subsection \<open>Inputs for the evaluations\<close>

definition job1 :: info where
  "job1 = \<lparr>runid = ''7'', vid = ''100A'', language = Code ''1'', source = ''int main(){}''\<rparr>"

definition job99 :: info where
  "job99 = \<lparr>runid = ''7'', vid = ''100A'', language = Code ''99'', source = ''int main(){}''\<rparr>"

text \<open>
  A stand-in for the JSON library: every non-empty payload is read as \<open>job1\<close>, and a
  verdict is written as its run id and result.
\<close>

definition test_json :: json where
  "test_json =
     \<lparr>parse = (\<lambda>d. if d = [] then None else Some job1),
      stringify = (\<lambda>v. bytes_of (vrunid v @ '':'' @ result v))\<rparr>"

definition compile_error :: verdict where
  "compile_error =
     \<lparr>memoryUsed = ''0'', timeUsed = ''0'', result = ''Compile Error'', remoteRunid = ''999'',
      type = RESULT_REPORT, vrunid = ''7'', compileInfo = None\<rparr>"

definition accepted :: verdict where
  "accepted =
     \<lparr>memoryUsed = ''256'', timeUsed = ''15'', result = ''Accepted'', remoteRunid = ''999'',
      type = RESULT_REPORT, vrunid = ''7'', compileInfo = None\<rparr>"

definition script :: "unit outcome list \<Rightarrow> unit outcome list \<Rightarrow> status outcome list \<Rightarrow>
    string outcome list \<Rightarrow> stub BaseJudger" where
  "script ls ss sts cis =
     new_BaseJudger ''stub'' \<lparr>logins = ls, submits = ss, statuses = sts, compileInfos = cis\<rparr>"

definition bnutest :: "response list \<Rightarrow> int list \<Rightarrow> A2ojJudger BaseJudger" where
  "bnutest net clk = new_A2ojJudger ''bnutest'' ''bnutest'' 120 net clk"

section \<open>Properties\<close>

lemmas pipeline_defs = maybeJudge_def judge_def onSubmitted_def onResult_def onFailed_def
  sendResult_def new_Buffer_def call_def

lemmas a2oj_defs = A2oj_def A2oj_getLanguage_def A2oj_login_def A2oj_submit_def
  A2oj_getStatus_def A2oj_getCompileInfo_def Object_prototype_def bnutest_def
  new_A2ojJudger_def new_BaseJudger_def

lemmas stub_defs = Stub_def next_outcome_def script_def new_BaseJudger_def

subsection \<open>What each step does to the flag, the socket and the trace\<close>

lemma call_eq:
  "call ev m st = (fst (m (sub st)), st\<lparr>sub := snd (m (sub st)), trace := trace st @ [ev]\<rparr>)"
  by (simp add: call_def split: prod.splits)

text \<open>\<open>sendResult_\<close> writes nothing: it raises before its first write.\<close>

lemma sendResult_effect:
  "loggedIn (sendResult J st res) = loggedIn st
   \<and> client (sendResult J st res) = client st
   \<and> sub (sendResult J st res) = sub st
   \<and> trace (sendResult J st res) = trace st @ [SendResult res]"
  by (simp add: sendResult_def new_Buffer_def)

lemma onFailed_effect:
  "loggedIn (onFailed st job rsn) = loggedIn st \<and> client (onFailed st job rsn) = client st
   \<and> trace (onFailed st job rsn) = trace st @ [Failed rsn]"
  by (simp add: onFailed_def Let_def)

lemma loggedIn_onResult: "loggedIn (onResult J M st res) = loggedIn st"
  by (simp add: onResult_def call_eq sendResult_effect split: outcome.splits)

lemma client_onResult: "client (onResult J M st res) = client st"
  by (simp add: onResult_def call_eq sendResult_effect split: outcome.splits)

lemma trace_onResult: "prefix t (trace st) \<Longrightarrow> prefix t (trace (onResult J M st res))"
  by (simp add: onResult_def call_eq sendResult_effect split: outcome.splits)

lemma loggedIn_onSubmitted: "loggedIn (onSubmitted J M st job) = loggedIn st"
  by (simp add: onSubmitted_def call_eq loggedIn_onResult split: outcome.splits)

lemma client_onSubmitted: "client (onSubmitted J M st job) = client st"
  by (simp add: onSubmitted_def call_eq client_onResult split: outcome.splits)

lemma trace_onSubmitted: "prefix t (trace st) \<Longrightarrow> prefix t (trace (onSubmitted J M st job))"
  by (simp add: onSubmitted_def call_eq trace_onResult split: outcome.splits)

lemma loggedIn_judge: "loggedIn (judge J M st job) = loggedIn st"
  by (simp add: judge_def call_eq loggedIn_onSubmitted onFailed_effect
        split: outcome.splits option.splits)

lemma client_judge: "client (judge J M st job) = client st"
  by (simp add: judge_def call_eq client_onSubmitted onFailed_effect
        split: outcome.splits option.splits)

lemma trace_judge: "prefix t (trace st) \<Longrightarrow> prefix t (trace (judge J M st job))"
  by (simp add: judge_def call_eq trace_onSubmitted onFailed_effect
        split: outcome.splits option.splits)


lemma loggedIn_maybeJudge: "loggedIn (maybeJudge J M st job) = loggedIn st"
  by (simp add: maybeJudge_def call_eq loggedIn_judge onFailed_effect Let_def
        split: outcome.splits sum.splits)

text \<open>No path of the pipeline writes to the socket.\<close>

lemma client_maybeJudge: "client (maybeJudge J M st job) = client st"
  by (simp add: maybeJudge_def call_eq client_judge onFailed_effect Let_def
        split: outcome.splits sum.splits)

text \<open>Every \<open>data\<close> event raises a TypeError, whatever the state and the chunk.\<close>

lemma onData_raises: "onData J M st d = Inl TypeError"
  by (simp add: onData_def data_readIntBE_def Buffer_concat_def)

lemma maybeJudge_login_first:
  "\<not> loggedIn st \<Longrightarrow> getLanguage M (sub st) (language job) = Inr l \<Longrightarrow>
     prefix (trace st @ [Login]) (trace (maybeJudge J M st job))"
  by (simp add: maybeJudge_def call_eq trace_judge onFailed_effect Let_def
        split: outcome.splits)



lemma onSubmitted_rejected:
  "fst (getStatus M (sub st)) = Rejected e \<Longrightarrow>
     onSubmitted J M st job =
       st\<lparr>sub := snd (getStatus M (sub st)), trace := trace st @ [GetStatus]\<rparr>"
  by (simp add: onSubmitted_def call_eq)

lemma maybeJudge_logged_in:
  "loggedIn st \<Longrightarrow> getLanguage M (sub st) (language job) = Inr l \<Longrightarrow>
     maybeJudge J M st job = st"
  by (simp add: maybeJudge_def)

text \<open>
  What \<open>onResult_\<close> hands to \<open>sendResult_\<close>: the fetch is made exactly for
  \<open>Compile Error\<close>, a resolved promise fills \<open>compileInfo\<close>, a rejected one leaves it
  empty, any other verdict goes as it is, and \<open>onFailed\<close> is not invoked.
\<close>

lemma onResult_trace:
  "(result res \<noteq> ''Compile Error'' \<longrightarrow>
      trace (onResult J M st res) = trace st @ [SendResult res])
   \<and> (result res = ''Compile Error'' \<longrightarrow>
        (\<forall>ci. fst (getCompileInfo M (sub st)) = Resolved ci \<longrightarrow>
           trace (onResult J M st res) =
             trace st @ [GetCompileInfo, SendResult (res\<lparr>compileInfo := Some ci\<rparr>)])
        \<and> (\<forall>e. fst (getCompileInfo M (sub st)) = Rejected e \<longrightarrow>
           trace (onResult J M st res) =
             trace st @ [GetCompileInfo, SendResult (res\<lparr>compileInfo := Some []\<rparr>)])
        \<and> (fst (getCompileInfo M (sub st)) \<in> {Pending, Thrown, Hangs} \<longrightarrow>
           trace (onResult J M st res) = trace st @ [GetCompileInfo]))"
  by (auto simp: onResult_def call_eq sendResult_effect split: outcome.splits)

text \<open>The flag is false in every reachable state.\<close>

lemma reachable_loggedIn: "reachable J M st \<Longrightarrow> \<not> loggedIn st"
proof (induction rule: reachable.induct)
  case (constructed jid b)
  show ?case by (simp add: new_BaseJudger_def)
next
  case (started st)
  then show ?case by (simp add: start_def connect_def)
next
  case (connected st)
  then show ?case by (simp add: onConnected_def)
next
  case (received st d st')
  then show ?case by (simp add: onData_raises)
next
  case (judged st job)
  then show ?case by (simp add: loggedIn_maybeJudge)
next
  case (closed st hadError)
  then show ?case by (simp add: onClose_def reconnect_def)
next
  case (errored st)
  then show ?case by (simp add: onError_def reconnect_def)
next
  case (timer st)
  then show ?case by (simp add: onTimer_def connect_def split: list.splits)
qed

subsection \<open>The retry cascade where it works\<close>

lemma submits_onResult:
  "count_list (trace (onResult J M st res)) Submit = count_list (trace st) Submit"
  by (simp add: onResult_def call_eq sendResult_effect split: outcome.splits)

lemma submits_onSubmitted:
  "count_list (trace (onSubmitted J M st job)) Submit = count_list (trace st) Submit"
  by (simp add: onSubmitted_def call_eq submits_onResult split: outcome.splits)

lemma judge_at_most_three_submits:
  "count_list (trace (judge J M st job)) Submit \<le> count_list (trace st) Submit + 3"
  by (simp add: judge_def call_eq submits_onSubmitted onFailed_effect
        split: outcome.splits option.splits)

lemma judge_fails_once:
  "trace (judge J (Stub w) (script [Resolved ()] [Rejected Undefined, Resolved ()] [] []) job1)
     = [Submit, Login, Submit, GetStatus]"
  by (simp add: pipeline_defs stub_defs)

lemma judge_fails_twice:
  "trace (judge J (Stub (Some 1000))
       (script [Resolved ()] [Rejected Undefined, Rejected Undefined, Resolved ()] [] []) job1)
     = [Submit, Login, Submit, SetTimeout 1000, Submit, GetStatus]"
  by (simp add: pipeline_defs stub_defs)

text \<open>Without a \<open>getWaitTime\<close> method, as in \<open>A2ojJudger\<close>, the third attempt is never made.\<close>

lemma judge_without_getWaitTime:
  "trace (judge J (Stub None)
       (script [Resolved ()] [Rejected Undefined, Rejected Undefined, Resolved ()] [] []) job1)
     = [Submit, Login, Submit]"
  by (simp add: pipeline_defs stub_defs)

subsection \<open>The A2OJ backend\<close>

lemma A2oj_getLanguage_table:
  "list_all (\<lambda>(code, l).
        A2oj_getLanguage (sub (new_A2ojJudger u p t net clk)) (Code code) = Inr (Code l))
     [(''1'', ''41''), (''2'', ''11''), (''3'', ''10''), (''4'', ''22''), (''5'', ''4''),
      (''6'', ''27''), (''7'', ''5''), (''8'', ''3''), (''9'', ''17''), (''10'', ''7'')]"
  by (simp add: A2oj_getLanguage_def new_A2ojJudger_def new_BaseJudger_def)

lemma A2oj_getLanguage_mapped:
  "languageTable a key = Some l \<Longrightarrow> l \<noteq> [] \<Longrightarrow> A2oj_getLanguage a (Code key) = Inr (Code l)"
  by (simp add: A2oj_getLanguage_def)

lemma A2oj_getLanguage_unmapped:
  "languageTable a key = None \<Longrightarrow> key \<notin> set Object_prototype \<Longrightarrow>
     A2oj_getLanguage a (Code key) = Inl InvalidLanguage"
  by (simp add: A2oj_getLanguage_def)

text \<open>
  A code that names a member of \<open>Object.prototype\<close> has no entry in the table and is
  translated all the same: the job goes on to \<open>login\<close>.
\<close>

lemma A2oj_getLanguage_inherited:
  "A2oj_getLanguage (sub (bnutest net clk)) (Code ''constructor'') = Inr (Builtin ''constructor'')
   \<and> trace (maybeJudge J A2oj (bnutest [] clk) (job1\<lparr>language := Code ''constructor''\<rparr>))
       = [Login]"
  by (simp add: pipeline_defs a2oj_defs Object_prototype_def job1_def)

text \<open>With a status URL, the promise of \<open>getStatus\<close> is neither resolved nor rejected.\<close>

lemma A2oj_getStatus_never_settles:
  "statusUrl a = Some u \<Longrightarrow> u \<noteq> [] \<Longrightarrow>
     fst (A2oj_getStatus a) = Pending \<or> fst (A2oj_getStatus a) = Hangs"
  by (simp add: A2oj_getStatus_def split: list.splits option.splits)

text \<open>
  A job the remote site accepts: login and submit succeed, \<open>getStatus\<close> spins until the
  deadline, and nothing is reported.
\<close>

lemma A2oj_accepted_submission_never_reports:
  "trace (maybeJudge J A2oj
       (bnutest [\<lparr>ok = True, body = ''Welcome'', url = ''http://www.a2oj.com/''\<rparr>,
                 \<lparr>ok = True,
                  body = ''<center>Your solution has been submitted successfully</center>'',
                  url = ''http://www.a2oj.com/status''\<rparr>]
                [0, 120000]) job1)
     = [Login, Submit, GetStatus]
   \<and> client (maybeJudge J A2oj
       (bnutest [\<lparr>ok = True, body = ''Welcome'', url = ''http://www.a2oj.com/''\<rparr>,
                 \<lparr>ok = True,
                  body = ''<center>Your solution has been submitted successfully</center>'',
                  url = ''http://www.a2oj.com/status''\<rparr>]
                [0, 120000]) job1) = []"
  by (simp add: pipeline_defs a2oj_defs job1_def)

subsection \<open>The claims\<close>

text \<open>
  Claim C1: every job received leads to exactly one verdict with its run id on the socket,
  on the success path and on every failure path. The code at a job whose login is refused:
  \<open>onFailed\<close> is invoked with the reason \<open>Login failed\<close>, builds its result object and
  returns; \<open>sendResult_\<close> is not called and nothing is written to the socket.
\<close>

theorem failed_login_sends_no_verdict:
  "trace (maybeJudge J A2oj (bnutest [\<lparr>ok = False, body = [], url = []\<rparr>] clk) job1)
     = [Login, Failed LOGIN_FAILED]
   \<and> client (maybeJudge J A2oj (bnutest [\<lparr>ok = False, body = [], url = []\<rparr>] clk) job1) = []"
  by (simp add: pipeline_defs a2oj_defs job1_def)

text \<open>
  Claim C2: the cascade makes at most three submit attempts; one failure leads to
  SUBMITTED through the second tier, two failures through the third, and a submit that
  always fails leads to FAILED after exactly three attempts. The code at a backend whose
  submit always fails (and that has a \<open>getWaitTime\<close>): three attempts are made, the
  fourth scripted answer is left over, and then the pipeline stops: \<open>onFailed\<close> is not
  invoked and nothing is written.
\<close>

theorem submit_always_fails_stops_silently:
  "trace (judge J (Stub (Some 1000))
       (script [Resolved ()] (replicate 4 (Rejected Undefined)) [] []) job1)
     = [Submit, Login, Submit, SetTimeout 1000, Submit]
   \<and> client (judge J (Stub (Some 1000))
       (script [Resolved ()] (replicate 4 (Rejected Undefined)) [] []) job1) = []
   \<and> submits (sub (judge J (Stub (Some 1000))
       (script [Resolved ()] (replicate 4 (Rejected Undefined)) [] []) job1))
     = [Rejected Undefined]"
  by (simp add: pipeline_defs stub_defs numeral_eq_Suc)



text \<open>
  Claim C4: when polling for the verdict fails, the pipeline goes to FAILED with the
  underlying error and a synthesized verdict is produced. The code at a backend whose
  \<open>getStatus\<close> is rejected with \<open>Timeout\<close>: after the call nothing happens; \<open>onFailed\<close>
  is not invoked and nothing is written.
\<close>

theorem poll_failure_stops_silently:
  "trace (onSubmitted J (Stub w) (script [] [] [Rejected (Str ''Timeout'')] []) job1)
     = [GetStatus]
   \<and> client (onSubmitted J (Stub w) (script [] [] [Rejected (Str ''Timeout'')] []) job1) = []"
  by (simp add: pipeline_defs stub_defs)

text \<open>
  Claim C5: decoding an encoded message gives the message back, and bytes delivered in
  several chunks decode as they do in one. The code at the frame of the two-byte payload
  \<open>{}\<close> delivered as five bytes and then one: the handler raises a TypeError and no
  message is decoded. The listener is handed a string, so the read of the length raises
  at the first chunk already; the branch for a later chunk, commented
  \<open>Continue reading\<close>, overwrites \<open>readBytes_\<close> and calls \<open>Buffer.concat\<close> with the number
  \<open>receivedBytes_\<close> in place of the bytes kept so far.
\<close>

theorem split_frame_raises:
  "deliver J M (new_BaseJudger jid b) [[0, 0, 0, 2, 123], [125]] = Inl TypeError"
  by (simp add: onData_raises)

text \<open>
  Claim C6: polling settles within the configured timeout, with a verdict or with
  Timeout, and suspends between checks. The code at a judger with a status URL, a timeout
  of 120 seconds and the clock readings 0, 60000 and 120000: the loop issues one request
  without waiting for it, ends at the deadline, and the promise is left pending.
\<close>

theorem getStatus_leaves_promise_pending:
  "A2oj_getStatus
     ((sub (bnutest [] [0, 60000, 120000]))\<lparr>statusUrl := Some ''http://www.a2oj.com/status''\<rparr>)
   = (Pending,
      (sub (bnutest [] []))\<lparr>statusUrl := Some ''http://www.a2oj.com/status'', requests := 1\<rparr>)"
  by (simp add: a2oj_defs)

text \<open>
  Claim C7: a job whose language code is not in the table fails translation, goes to
  FAILED(InvalidLanguage) without any backend call, and a verdict with result
  \<open>Judge Error (Invalid Language)\<close> is emitted. The code at language code 99: \<open>onFailed\<close>
  is invoked with \<open>Invalid language\<close>, no backend call is made and no response is
  consumed, and nothing is written to the socket.
\<close>

theorem invalid_language_sends_no_verdict:
  "trace (maybeJudge J A2oj (bnutest net clk) job99) = [Failed INVALID_LANGUAGE]
   \<and> network (sub (maybeJudge J A2oj (bnutest net clk) job99)) = net
   \<and> client (maybeJudge J A2oj (bnutest net clk) job99) = []"
  by (simp add: pipeline_defs a2oj_defs job99_def)

text \<open>
  Claim C8: the verdict \<open>onFailed\<close> synthesizes has type 1003, the job's run id,
  \<open>memoryUsed\<close>, \<open>timeUsed\<close> and \<open>remoteRunid\<close> equal to \<open>0\<close>, an empty \<open>compileInfo\<close>,
  and a result chosen by the reason: \<open>Compile Error\<close>, \<open>Judge Error (Same Code)\<close>,
  \<open>Judge Error (Invalid Language)\<close>, and \<open>Judge Error\<close> for a failed login and for every
  other reason.
\<close>

theorem onFailed_result_fields:
  "type (onFailed_result job rsn) = 1003
   \<and> vrunid (onFailed_result job rsn) = runid job
   \<and> memoryUsed (onFailed_result job rsn) = ''0''
   \<and> timeUsed (onFailed_result job rsn) = ''0''
   \<and> remoteRunid (onFailed_result job rsn) = ''0''
   \<and> compileInfo (onFailed_result job rsn) = Some []
   \<and> result (onFailed_result job COMPILE_ERROR) = ''Compile Error''
   \<and> result (onFailed_result job SAME_CODE) = ''Judge Error (Same Code)''
   \<and> result (onFailed_result job INVALID_LANGUAGE) = ''Judge Error (Invalid Language)''
   \<and> result (onFailed_result job LOGIN_FAILED) = ''Judge Error''
   \<and> (rsn \<noteq> COMPILE_ERROR \<and> rsn \<noteq> SAME_CODE \<and> rsn \<noteq> INVALID_LANGUAGE \<longrightarrow>
        result (onFailed_result job rsn) = ''Judge Error'')"
  by (simp add: onFailed_result_def RESULT_REPORT_def COMPILE_ERROR_def SAME_CODE_def
        INVALID_LANGUAGE_def LOGIN_FAILED_def)

theorem onFailed_result_fields_witness:
  "Str ''Timeout'' \<noteq> COMPILE_ERROR \<and> Str ''Timeout'' \<noteq> SAME_CODE
   \<and> Str ''Timeout'' \<noteq> INVALID_LANGUAGE
   \<and> result (onFailed_result job1 (Str ''Timeout'')) = ''Judge Error''
   \<and> vrunid (onFailed_result job1 (Str ''Timeout'')) = ''7''"
  using onFailed_result_fields [of job1 "Str ''Timeout''"]
  by (simp add: COMPILE_ERROR_def SAME_CODE_def INVALID_LANGUAGE_def job1_def)

text \<open>
  Claim C9: the compile-diagnostics step never moves the pipeline to FAILED; when the
  fetch fails the verdict is still reported with an empty \<open>compileInfo\<close>, and any other
  verdict is reported unchanged. The code, at a \<open>Compile Error\<close> verdict and a backend
  whose fetch is rejected: \<open>compileInfo\<close> is set to the empty string and \<open>sendResult_\<close> is
  entered, but \<open>new Buffer\<close> raises there and nothing is written. At an \<open>Accepted\<close>
  verdict the same happens. With \<open>A2ojJudger\<close>, whose \<open>getCompileInfo\<close> throws instead of
  returning a promise, \<open>sendResult_\<close> is not even entered.
\<close>

theorem compile_error_verdict_is_not_written:
  "trace (onResult J (Stub w) (script [] [] [] [Rejected Undefined]) compile_error)
     = [GetCompileInfo, SendResult (compile_error\<lparr>compileInfo := Some []\<rparr>)]
   \<and> client (onResult J (Stub w) (script [] [] [] [Rejected Undefined]) compile_error) = []
   \<and> trace (onResult J (Stub w) (script [] [] [] []) accepted) = [SendResult accepted]
   \<and> client (onResult J (Stub w) (script [] [] [] []) accepted) = []
   \<and> trace (onResult J A2oj (bnutest net clk) compile_error) = [GetCompileInfo]
   \<and> client (onResult J A2oj (bnutest net clk) compile_error) = []"
  by (simp add: pipeline_defs stub_defs a2oj_defs compile_error_def accepted_def)

text \<open>
  Claim C10: \<open>loggedIn_\<close> is false in every reachable state, so every job whose language
  translates starts with a call of \<open>login\<close>, before any submit.
\<close>

theorem loggedIn_never_set:
  assumes "reachable J M st"
  shows "\<not> loggedIn st
       \<and> (\<forall>job l. getLanguage M (sub st) (language job) = Inr l \<longrightarrow>
            prefix (trace st @ [Login]) (trace (maybeJudge J M st job)))"
proof -
  from assms have "\<not> loggedIn st"
    by (rule reachable_loggedIn)
  then show ?thesis
    by (simp add: maybeJudge_login_first)
qed

theorem loggedIn_never_set_witness:
  "reachable test_json A2oj (onConnected (start (bnutest [] [])))
   \<and> \<not> loggedIn (onConnected (start (bnutest [] [])))
   \<and> getLanguage A2oj (sub (onConnected (start (bnutest [] [])))) (language job1)
       = Inr (Code ''41'')
   \<and> prefix [Login] (trace (maybeJudge test_json A2oj (onConnected (start (bnutest [] []))) job1))"
proof -
  have r: "reachable test_json A2oj (onConnected (start (bnutest [] [])))"
    unfolding bnutest_def new_A2ojJudger_def
    by (rule reachable.connected, rule reachable.started, rule reachable.constructed)
  have g: "getLanguage A2oj (sub (onConnected (start (bnutest [] [])))) (language job1)
             = Inr (Code ''41'')"
    by (simp add: a2oj_defs onConnected_def start_def connect_def job1_def)
  have t: "trace (onConnected (start (bnutest [] []))) = []"
    by (simp add: a2oj_defs onConnected_def start_def connect_def)
  from loggedIn_never_set [OF r] g t show ?thesis
    using r by auto
qed

end
